theory Spec2Isabelle
  imports Complex_Main "HOL-Library.AList"
begin

section \<open>The airlock simulator of \<^verbatim>\<open>airlock_gui.py\<close>\<close>

text \<open>
  The simulation core of class \<^verbatim>\<open>AirlockGUI\<close>: the sensors derived from the rover
  position (\<^verbatim>\<open>update_sensors\<close>), the two gate state machines
  (\<^verbatim>\<open>process_gate_requests\<close>, \<^verbatim>\<open>animate_gates\<close>) and the telegram codec
  (\<^verbatim>\<open>send_data\<close>, \<^verbatim>\<open>read_arduino_data\<close>). Widgets, canvas drawing, particles and
  the terminal log are presentation and are left out: none of them is read by the
  functions modelled here.

  Python floats are idealised as exact reals: \<^verbatim>\<open>0.1\<close> is one tenth and
  \<^verbatim>\<open>638 * 0.5 * 0.4\<close> is 127.6. The four periodic threads of the source are
  modelled as an interleaving of whole calls.
\<close>

subsection \<open>Geometry (attributes set once in \<^verbatim>\<open>__init__\<close>)\<close>

definition scale :: real where
  "scale = 0.5"

definition front_zone_width :: real where
  "front_zone_width = 408 * scale"

definition middle_zone_width :: real where
  "middle_zone_width = 560 * scale"

definition back_zone_width :: real where
  "back_zone_width = 408 * scale"

definition rover_width :: real where
  "rover_width = 638 * scale * 0.4"

definition gate_a_x :: real where
  "gate_a_x = front_zone_width"

definition gate_b_x :: real where
  "gate_b_x = front_zone_width + middle_zone_width"

definition start_x :: real where
  "start_x = 100"

definition gate_animation_duration :: real where
  "gate_animation_duration = 3.0"

text \<open>The local \<^verbatim>\<open>safety_zone_width = 60\<close> of \<^verbatim>\<open>update_sensors\<close>.\<close>

definition safety_zone_width :: real where
  "safety_zone_width = 60"

text \<open>The local \<^verbatim>\<open>dt = 0.1\<close> of \<^verbatim>\<open>animate_gates\<close>.\<close>

definition dt :: real where
  "dt = 0.1"

subsection \<open>The state of the simulator\<close>

text \<open>
  Both dictionaries are association lists in insertion order, as a Python \<^verbatim>\<open>dict\<close>
  is: \<^verbatim>\<open>d[k] = v\<close> is \<^const>\<open>AList.update\<close>, which overwrites in place the entry of a
  key that is present and appends a new one otherwise; \<^verbatim>\<open>d[k]\<close> raises
  \<^verbatim>\<open>KeyError\<close> when the key is missing; \<^verbatim>\<open>d.items()\<close> is the list itself.

  \<^verbatim>\<open>self.connected\<close> and \<^verbatim>\<open>self.ser\<close> are set and cleared together by
  \<^verbatim>\<open>connect_serial\<close> and \<^verbatim>\<open>disconnect_serial\<close>, so the guard
  \<^verbatim>\<open>not self.connected or not self.ser\<close> is \<open>\<not> connected\<close>.
\<close>

datatype py_error = IndexError | ValueError | KeyError

record state =
  connected :: bool
  rover_x :: real
  gate_a_open :: bool
  gate_b_open :: bool
  gate_a_moving :: bool
  gate_b_moving :: bool
  gate_animation_progress_a :: real
  gate_animation_progress_b :: real
  gate_a_animation_time :: real
  gate_b_animation_time :: real
  gate_a_target_state :: bool
  gate_b_target_state :: bool
  sensor_states :: "(string \<times> bool) list"
  gate_requests :: "(string \<times> bool) list"

definition init_state :: state where
  "init_state =
     \<lparr> connected = False,
       rover_x = 50,
       gate_a_open = False,
       gate_b_open = False,
       gate_a_moving = False,
       gate_b_moving = False,
       gate_animation_progress_a = 0,
       gate_animation_progress_b = 0,
       gate_a_animation_time = 0,
       gate_b_animation_time = 0,
       gate_a_target_state = False,
       gate_b_target_state = False,
       sensor_states =
         [(''PRESENCE_FRONT'', False),
          (''PRESENCE_MIDDLE'', False),
          (''PRESENCE_BACK'', False),
          (''GATE_SAFETY_A'', False),
          (''GATE_SAFETY_B'', False),
          (''GATE_MOVING_A'', False),
          (''GATE_MOVING_B'', False)],
       gate_requests =
         [(''GATE_REQUEST_A'', False),
          (''GATE_REQUEST_B'', False)] \<rparr>"

text \<open>\<^verbatim>\<open>self.sensor_states[k] = v\<close>.\<close>

definition set_sensor :: "string \<Rightarrow> bool \<Rightarrow> state \<Rightarrow> state" where
  "set_sensor k v s = s\<lparr>sensor_states := AList.update k v (sensor_states s)\<rparr>"

subsection \<open>\<^verbatim>\<open>update_sensors\<close>\<close>

definition rover_left :: "state \<Rightarrow> real" where
  "rover_left s = rover_x s - rover_width / 2"

definition rover_right :: "state \<Rightarrow> real" where
  "rover_right s = rover_x s + rover_width / 2"

definition front_sensor_x :: real where
  "front_sensor_x = start_x + front_zone_width / 2"

definition middle_sensor_x :: real where
  "middle_sensor_x = start_x + front_zone_width + middle_zone_width / 2"

definition back_sensor_x :: real where
  "back_sensor_x = start_x + front_zone_width + middle_zone_width + back_zone_width / 2"

definition gate_a_pos :: real where
  "gate_a_pos = start_x + gate_a_x"

definition gate_b_pos :: real where
  "gate_b_pos = start_x + gate_b_x"

text \<open>
  The sensor part of \<^verbatim>\<open>update_sensors\<close>, in the order of its assignments. The
  labels it recolours afterwards are widgets.
\<close>

definition update_sensors :: "state \<Rightarrow> state" where
  "update_sensors s =
     (let s1 = set_sensor ''PRESENCE_FRONT''
                 (rover_left s \<le> front_sensor_x \<and> front_sensor_x \<le> rover_right s) s;
          s2 = set_sensor ''PRESENCE_MIDDLE''
                 (rover_left s \<le> middle_sensor_x \<and> middle_sensor_x \<le> rover_right s) s1;
          s3 = set_sensor ''PRESENCE_BACK''
                 (rover_left s \<le> back_sensor_x \<and> back_sensor_x \<le> rover_right s) s2;
          s4 = (if rover_right s > gate_a_pos - safety_zone_width / 2 \<and>
                   rover_left s < gate_a_pos + safety_zone_width / 2
                then set_sensor ''GATE_SAFETY_A'' True s3
                else set_sensor ''GATE_SAFETY_A'' False s3);
          s5 = (if rover_right s > gate_b_pos - safety_zone_width / 2 \<and>
                   rover_left s < gate_b_pos + safety_zone_width / 2
                then set_sensor ''GATE_SAFETY_B'' True s4
                else set_sensor ''GATE_SAFETY_B'' False s4)
      in s5)"

text \<open>
  \<^verbatim>\<open>on_canvas_drag\<close> (while dragging) stores the new position and recomputes the
  sensors; \<^verbatim>\<open>on_key_press\<close> does the same one pixel to the left or right.
\<close>

definition on_canvas_drag :: "real \<Rightarrow> state \<Rightarrow> state" where
  "on_canvas_drag new_x s = update_sensors (s\<lparr>rover_x := new_x\<rparr>)"

datatype keysym = Left | Right | Other

definition on_key_press :: "keysym \<Rightarrow> state \<Rightarrow> state" where
  "on_key_press k s =
     (case k of
        Left \<Rightarrow> update_sensors (s\<lparr>rover_x := rover_x s - 1\<rparr>)
      | Right \<Rightarrow> update_sensors (s\<lparr>rover_x := rover_x s + 1\<rparr>)
      | Other \<Rightarrow> s)"

text \<open>Reading a sensor out of the snapshot.\<close>

definition sensor :: "state \<Rightarrow> string \<Rightarrow> bool option" where
  "sensor s k = map_of (sensor_states s) k"

text \<open>
  The three zones as \<^verbatim>\<open>draw_airlock_static\<close> lays them out from \<^verbatim>\<open>start_x\<close>: each
  is the interval between its left and right walls.
\<close>

definition front_zone :: "real \<times> real" where
  "front_zone = (start_x, start_x + front_zone_width)"

definition middle_zone :: "real \<times> real" where
  "middle_zone = (start_x + front_zone_width, start_x + front_zone_width + middle_zone_width)"

definition back_zone :: "real \<times> real" where
  "back_zone = (start_x + front_zone_width + middle_zone_width,
                start_x + front_zone_width + middle_zone_width + back_zone_width)"

definition centre :: "real \<times> real \<Rightarrow> real" where
  "centre z = (fst z + snd z) / 2"

subsection \<open>\<^verbatim>\<open>process_gate_requests\<close>\<close>

text \<open>
  The block of \<^verbatim>\<open>process_gate_requests\<close> for gate A, with the value of
  \<^verbatim>\<open>self.gate_requests['GATE_REQUEST_A']\<close> as \<open>request\<close>.
\<close>

definition process_gate_a :: "bool \<Rightarrow> state \<Rightarrow> state" where
  "process_gate_a request s =
     (if request then
        (if \<not> gate_a_moving s then
           (if \<not> gate_a_open s then
              set_sensor ''GATE_MOVING_A'' True
                (s\<lparr>gate_a_target_state := True,
                   gate_a_moving := True,
                   gate_a_animation_time :=
                     gate_animation_progress_a s * gate_animation_duration\<rparr>)
            else s)
         else
           (if \<not> gate_a_target_state s then
              s\<lparr>gate_a_target_state := True,
                gate_a_animation_time :=
                  gate_animation_progress_a s * gate_animation_duration\<rparr>
            else s))
      else
        (if \<not> gate_a_moving s then
           (if gate_a_open s then
              set_sensor ''GATE_MOVING_A'' True
                (s\<lparr>gate_a_target_state := False,
                   gate_a_moving := True,
                   gate_a_animation_time :=
                     (1.0 - gate_animation_progress_a s) * gate_animation_duration\<rparr>)
            else s)
         else
           (if gate_a_target_state s then
              s\<lparr>gate_a_target_state := False,
                gate_a_animation_time :=
                  (1.0 - gate_animation_progress_a s) * gate_animation_duration\<rparr>
            else s)))"

text \<open>The block for gate B.\<close>

definition process_gate_b :: "bool \<Rightarrow> state \<Rightarrow> state" where
  "process_gate_b request s =
     (if request then
        (if \<not> gate_b_moving s then
           (if \<not> gate_b_open s then
              set_sensor ''GATE_MOVING_B'' True
                (s\<lparr>gate_b_target_state := True,
                   gate_b_moving := True,
                   gate_b_animation_time :=
                     gate_animation_progress_b s * gate_animation_duration\<rparr>)
            else s)
         else
           (if \<not> gate_b_target_state s then
              s\<lparr>gate_b_target_state := True,
                gate_b_animation_time :=
                  gate_animation_progress_b s * gate_animation_duration\<rparr>
            else s))
      else
        (if \<not> gate_b_moving s then
           (if gate_b_open s then
              set_sensor ''GATE_MOVING_B'' True
                (s\<lparr>gate_b_target_state := False,
                   gate_b_moving := True,
                   gate_b_animation_time :=
                     (1.0 - gate_animation_progress_b s) * gate_animation_duration\<rparr>)
            else s)
         else
           (if gate_b_target_state s then
              s\<lparr>gate_b_target_state := False,
                gate_b_animation_time :=
                  (1.0 - gate_animation_progress_b s) * gate_animation_duration\<rparr>
            else s)))"

text \<open>
  The function first prints both requests, so a missing key raises \<^verbatim>\<open>KeyError\<close>
  before anything is changed; then it runs the block of gate A and the block of gate B.
  An exception is returned together with the state it leaves behind.
\<close>

definition process_gate_requests :: "state \<Rightarrow> (py_error \<times> state) + state" where
  "process_gate_requests s =
     (case map_of (gate_requests s) ''GATE_REQUEST_A'' of
        None \<Rightarrow> Inl (KeyError, s)
      | Some request_a \<Rightarrow>
          (case map_of (gate_requests s) ''GATE_REQUEST_B'' of
             None \<Rightarrow> Inl (KeyError, s)
           | Some request_b \<Rightarrow>
               Inr (process_gate_b request_b (process_gate_a request_a s))))"

subsection \<open>\<^verbatim>\<open>animate_gates\<close>\<close>

text \<open>
  The block of \<^verbatim>\<open>animate_gates\<close> for gate A. The source reads
  \<^verbatim>\<open>#safety_triggered = self.sensor_states['GATE_SAFETY_A']\<close> followed by
  \<^verbatim>\<open>safety_triggered=False\<close>: the flag is the constant \<open>False\<close>.
\<close>

definition animate_gate_a :: "state \<Rightarrow> state" where
  "animate_gate_a s =
     (if gate_a_moving s then
        (let safety_triggered = False in
         if gate_a_target_state s then
           (let s1 = s\<lparr>gate_a_animation_time := gate_a_animation_time s + dt\<rparr>;
                progress = min (gate_a_animation_time s1 / gate_animation_duration) 1.0;
                s2 = s1\<lparr>gate_animation_progress_a := progress\<rparr>
            in if progress \<ge> 1.0 then
                 set_sensor ''GATE_MOVING_A'' False
                   (s2\<lparr>gate_animation_progress_a := 1.0,
                       gate_a_open := True,
                       gate_a_moving := False,
                       gate_a_animation_time := 0\<rparr>)
               else s2)
         else
           (if \<not> safety_triggered then
              (let s1 = s\<lparr>gate_a_animation_time := gate_a_animation_time s + dt\<rparr>;
                   progress = min (gate_a_animation_time s1 / gate_animation_duration) 1.0;
                   s2 = s1\<lparr>gate_animation_progress_a := 1.0 - progress\<rparr>
               in if progress \<ge> 1.0 then
                    set_sensor ''GATE_MOVING_A'' False
                      (s2\<lparr>gate_animation_progress_a := 0.0,
                          gate_a_open := False,
                          gate_a_moving := False,
                          gate_a_animation_time := 0\<rparr>)
                  else s2)
            else s))
      else s)"

text \<open>The block for gate B, with \<^verbatim>\<open>safety_triggered=False\<close> again.\<close>

definition animate_gate_b :: "state \<Rightarrow> state" where
  "animate_gate_b s =
     (if gate_b_moving s then
        (let safety_triggered = False in
         if gate_b_target_state s then
           (let s1 = s\<lparr>gate_b_animation_time := gate_b_animation_time s + dt\<rparr>;
                progress = min (gate_b_animation_time s1 / gate_animation_duration) 1.0;
                s2 = s1\<lparr>gate_animation_progress_b := progress\<rparr>
            in if progress \<ge> 1.0 then
                 set_sensor ''GATE_MOVING_B'' False
                   (s2\<lparr>gate_animation_progress_b := 1.0,
                       gate_b_open := True,
                       gate_b_moving := False,
                       gate_b_animation_time := 0\<rparr>)
               else s2)
         else
           (if \<not> safety_triggered then
              (let s1 = s\<lparr>gate_b_animation_time := gate_b_animation_time s + dt\<rparr>;
                   progress = min (gate_b_animation_time s1 / gate_animation_duration) 1.0;
                   s2 = s1\<lparr>gate_animation_progress_b := 1.0 - progress\<rparr>
               in if progress \<ge> 1.0 then
                    set_sensor ''GATE_MOVING_B'' False
                      (s2\<lparr>gate_animation_progress_b := 0.0,
                          gate_b_open := False,
                          gate_b_moving := False,
                          gate_b_animation_time := 0\<rparr>)
                  else s2)
            else s))
      else s)"

definition animate_gates :: "state \<Rightarrow> state" where
  "animate_gates s = animate_gate_b (animate_gate_a s)"

subsection \<open>The telegram codec\<close>

text \<open>\<^verbatim>\<open>sep.join(parts)\<close> and \<^verbatim>\<open>s.split(sep)\<close> for a one-character separator.\<close>

fun str_join :: "string \<Rightarrow> string list \<Rightarrow> string" where
  "str_join sep [] = []"
| "str_join sep [p] = p"
| "str_join sep (p # q # ps) = p @ sep @ str_join sep (q # ps)"

fun str_split :: "char \<Rightarrow> string \<Rightarrow> string list" where
  "str_split sep [] = [[]]"
| "str_split sep (c # cs) =
     (if c = sep then [] # str_split sep cs
      else (case str_split sep cs of
              [] \<Rightarrow> [[c]]
            | w # ws \<Rightarrow> (c # w) # ws))"

definition startswith :: "string \<Rightarrow> char \<Rightarrow> bool" where
  "startswith line c = (case line of [] \<Rightarrow> False | x # _ \<Rightarrow> x = c)"

definition endswith :: "string \<Rightarrow> char \<Rightarrow> bool" where
  "endswith line c = (case rev line of [] \<Rightarrow> False | x # _ \<Rightarrow> x = c)"

text \<open>
  The text \<^verbatim>\<open>send_data\<close> builds: the entries of \<^verbatim>\<open>sensor_states\<close> in dictionary
  order, without the two \<^verbatim>\<open>GATE_MOVING\<close> keys, then the two moving flags of the gates.
\<close>

definition data_parts :: "state \<Rightarrow> string list" where
  "data_parts s =
     map (\<lambda>(name, st). name @ '':'' @ (if st then ''1'' else ''0''))
       (filter (\<lambda>(name, st). name \<notin> set [''GATE_MOVING_A'', ''GATE_MOVING_B''])
          (sensor_states s))
     @ [''GATE_MOVING_A:'' @ (if gate_a_moving s then ''1'' else ''0''),
        ''GATE_MOVING_B:'' @ (if gate_b_moving s then ''1'' else ''0'')]"

definition message :: "state \<Rightarrow> string" where
  "message s = ''<'' @ str_join '','' (data_parts s) @ ''>''"

text \<open>\<^verbatim>\<open>send_data\<close>: what is written to the port, nothing when there is no link.\<close>

definition send_data :: "state \<Rightarrow> string option" where
  "send_data s = (if \<not> connected s then None else Some (message s))"

text \<open>
  The loop \<^verbatim>\<open>for pair in pairs\<close> of \<^verbatim>\<open>read_arduino_data\<close> on the dictionary
  \<^verbatim>\<open>gate_requests\<close>. \<^verbatim>\<open>name, value = pair.split(':')\<close> unpacks exactly two parts
  and raises \<^verbatim>\<open>ValueError\<close> otherwise; the dictionary keeps the writes made before.
\<close>

fun read_pairs ::
  "string list \<Rightarrow> (string \<times> bool) list \<Rightarrow>
     (py_error \<times> (string \<times> bool) list) + (string \<times> bool) list" where
  "read_pairs [] gr = Inr gr"
| "read_pairs (pair # pairs) gr =
     (if CHR '':'' \<in> set pair then
        (case str_split CHR '':'' pair of
           [name, value] \<Rightarrow>
             (if name \<in> set (map fst gr)
              then read_pairs pairs (AList.update name (value = ''1'') gr)
              else read_pairs pairs gr)
         | _ \<Rightarrow> Inl (ValueError, gr))
      else read_pairs pairs gr)"

text \<open>
  \<^verbatim>\<open>read_arduino_data\<close> when a line is waiting; \<open>line\<close> is
  \<^verbatim>\<open>self.ser.readline().decode().strip()\<close>. The debugging statement
  \<^verbatim>\<open>print(line[-1])\<close> comes before the test of the delimiters and raises
  \<^verbatim>\<open>IndexError\<close> on the empty string. Only \<^verbatim>\<open>serial.SerialException\<close> is caught,
  so the other exceptions leave the function.
\<close>

definition read_arduino_data :: "string \<Rightarrow> state \<Rightarrow> (py_error \<times> state) + state" where
  "read_arduino_data line s =
     (if \<not> connected s then Inr s
      else if line = [] then Inl (IndexError, s)
      else if startswith line CHR ''<'' \<and> endswith line CHR ''>'' then
        (let data = butlast (tl line);
             pairs = str_split CHR '','' data
         in case read_pairs pairs (gate_requests s) of
              Inl (e, gr) \<Rightarrow> Inl (e, s\<lparr>gate_requests := gr\<rparr>)
            | Inr gr \<Rightarrow> process_gate_requests (s\<lparr>gate_requests := gr\<rparr>))
      else Inr s)"

subsection \<open>Runs of the simulator\<close>

text \<open>
  What can happen to the state: the link is opened or closed, the rover is dragged or
  moved by a key, the animation thread ticks, a line arrives. After an exception the
  state is the one the exception left.
\<close>

datatype event = Connect | Disconnect | Drag real | Key keysym | Tick | Line string

definition state_of :: "(py_error \<times> state) + state \<Rightarrow> state" where
  "state_of r = (case r of Inl (e, s) \<Rightarrow> s | Inr s \<Rightarrow> s)"

fun step :: "event \<Rightarrow> state \<Rightarrow> state" where
  "step Connect s = s\<lparr>connected := True\<rparr>"
| "step Disconnect s = s\<lparr>connected := False\<rparr>"
| "step (Drag new_x) s = on_canvas_drag new_x s"
| "step (Key k) s = on_key_press k s"
| "step Tick s = animate_gates s"
| "step (Line line) s = state_of (read_arduino_data line s)"

definition run :: "event list \<Rightarrow> state \<Rightarrow> state" where
  "run es s = fold step es s"

subsection \<open>Notions used in the statements\<close>

text \<open>The keys of the two dictionaries, in the order \<^verbatim>\<open>__init__\<close> inserts them.\<close>

definition sensor_keys :: "string list" where
  "sensor_keys =
     [''PRESENCE_FRONT'', ''PRESENCE_MIDDLE'', ''PRESENCE_BACK'',
      ''GATE_SAFETY_A'', ''GATE_SAFETY_B'', ''GATE_MOVING_A'', ''GATE_MOVING_B'']"

definition request_keys :: "string list" where
  "request_keys = [''GATE_REQUEST_A'', ''GATE_REQUEST_B'']"

definition sensor_names :: "state \<Rightarrow> string list" where
  "sensor_names s = map fst (sensor_states s)"

definition request_names :: "state \<Rightarrow> string list" where
  "request_names s = map fst (gate_requests s)"

text \<open>A sensor dictionary with the seven keys in that order, and its wire digit.\<close>

definition snapshot ::
  "bool \<Rightarrow> bool \<Rightarrow> bool \<Rightarrow> bool \<Rightarrow> bool \<Rightarrow> bool \<Rightarrow> bool \<Rightarrow> (string \<times> bool) list" where
  "snapshot pf pm pb sa sb ma mb =
     [(''PRESENCE_FRONT'', pf), (''PRESENCE_MIDDLE'', pm), (''PRESENCE_BACK'', pb),
      (''GATE_SAFETY_A'', sa), (''GATE_SAFETY_B'', sb),
      (''GATE_MOVING_A'', ma), (''GATE_MOVING_B'', mb)]"

definition flag :: "bool \<Rightarrow> string" where
  "flag b = (if b then ''1'' else ''0'')"

text \<open>
  The invariant of the simulator: the dictionaries keep their keys, the two
  \<^verbatim>\<open>GATE_MOVING\<close> entries mirror the moving flags, and for each gate the progress is
  between 0 and 1, the animation time is not negative, and a gate at rest is at the end
  its \<^verbatim>\<open>open\<close> flag names.
\<close>

definition keys_inv :: "state \<Rightarrow> bool" where
  "keys_inv s \<longleftrightarrow> sensor_names s = sensor_keys \<and> request_names s = request_keys"

definition mirror_inv :: "state \<Rightarrow> bool" where
  "mirror_inv s \<longleftrightarrow>
     sensor s ''GATE_MOVING_A'' = Some (gate_a_moving s) \<and>
     sensor s ''GATE_MOVING_B'' = Some (gate_b_moving s)"

definition gate_a_inv :: "state \<Rightarrow> bool" where
  "gate_a_inv s \<longleftrightarrow>
     0 \<le> gate_animation_progress_a s \<and> gate_animation_progress_a s \<le> 1 \<and>
     0 \<le> gate_a_animation_time s \<and>
     (gate_a_moving s \<or> gate_animation_progress_a s = (if gate_a_open s then 1 else 0))"

definition gate_b_inv :: "state \<Rightarrow> bool" where
  "gate_b_inv s \<longleftrightarrow>
     0 \<le> gate_animation_progress_b s \<and> gate_animation_progress_b s \<le> 1 \<and>
     0 \<le> gate_b_animation_time s \<and>
     (gate_b_moving s \<or> gate_animation_progress_b s = (if gate_b_open s then 1 else 0))"

definition sim_inv :: "state \<Rightarrow> bool" where
  "sim_inv s \<longleftrightarrow> keys_inv s \<and> mirror_inv s \<and> gate_a_inv s \<and> gate_b_inv s"

text \<open>
  The state \<^verbatim>\<open>read_arduino_data\<close> hands to \<^verbatim>\<open>process_gate_requests\<close> after a line
  that carries both request keys.
\<close>

definition with_requests :: "bool \<Rightarrow> bool \<Rightarrow> state \<Rightarrow> state" where
  "with_requests ra rb s =
     s\<lparr>gate_requests := [(''GATE_REQUEST_A'', ra), (''GATE_REQUEST_B'', rb)]\<rparr>"

text \<open>
  Three runs from the initial state: the link is opened, gate A is asked to open and the
  animation ticks \<open>n\<close> times; the same with the rover parked across gate A and a request
  to close after 30 ticks; both gates asked to open, followed by 12 ticks.
\<close>

definition open_cycle :: "nat \<Rightarrow> event list" where
  "open_cycle n = [Connect, Line ''<GATE_REQUEST_A:1>''] @ replicate n Tick"

definition interlock_scenario :: "event list" where
  "interlock_scenario =
     [Connect, Drag 304, Line ''<GATE_REQUEST_A:1>''] @ replicate 30 Tick @
     [Line ''<GATE_REQUEST_A:0>'']"


section \<open>Sensors\<close>

lemmas geometry_defs =
  scale_def front_zone_width_def middle_zone_width_def back_zone_width_def
  rover_width_def gate_a_x_def gate_b_x_def start_x_def safety_zone_width_def

lemma sensor_set_sensor:
  "sensor (set_sensor k v s) k' = (if k' = k then Some v else sensor s k')"
  by (simp add: sensor_def set_sensor_def update_conv')

lemma sensor_lines_are_centres:
  "front_sensor_x = centre front_zone"
  "middle_sensor_x = centre middle_zone"
  "back_sensor_x = centre back_zone"
  by (simp_all add: front_sensor_x_def middle_sensor_x_def back_sensor_x_def centre_def
      front_zone_def middle_zone_def back_zone_def)

lemma sensor_update_sensors:
  "sensor (update_sensors s) k =
     (if k = ''GATE_SAFETY_B'' then
        Some (rover_right s > gate_b_pos - safety_zone_width / 2 \<and>
              rover_left s < gate_b_pos + safety_zone_width / 2)
      else if k = ''GATE_SAFETY_A'' then
        Some (rover_right s > gate_a_pos - safety_zone_width / 2 \<and>
              rover_left s < gate_a_pos + safety_zone_width / 2)
      else if k = ''PRESENCE_BACK'' then
        Some (rover_left s \<le> back_sensor_x \<and> back_sensor_x \<le> rover_right s)
      else if k = ''PRESENCE_MIDDLE'' then
        Some (rover_left s \<le> middle_sensor_x \<and> middle_sensor_x \<le> rover_right s)
      else if k = ''PRESENCE_FRONT'' then
        Some (rover_left s \<le> front_sensor_x \<and> front_sensor_x \<le> rover_right s)
      else sensor s k)"
  by (simp add: update_sensors_def Let_def sensor_set_sensor)

text \<open>
  Claim C3. After \<^verbatim>\<open>update_sensors\<close>, for every rover position, each presence sensor
  is true exactly when the centre line of its zone lies in the closed interval from
  \<open>x - width/2\<close> to \<open>x + width/2\<close>; a rover whose left or right edge is exactly on
  the line trips the sensor.
\<close>

theorem presence_closed_interval:
  "sensor (update_sensors s) ''PRESENCE_FRONT'' =
     Some (rover_x s - rover_width / 2 \<le> centre front_zone \<and>
           centre front_zone \<le> rover_x s + rover_width / 2) \<and>
   sensor (update_sensors s) ''PRESENCE_MIDDLE'' =
     Some (rover_x s - rover_width / 2 \<le> centre middle_zone \<and>
           centre middle_zone \<le> rover_x s + rover_width / 2) \<and>
   sensor (update_sensors s) ''PRESENCE_BACK'' =
     Some (rover_x s - rover_width / 2 \<le> centre back_zone \<and>
           centre back_zone \<le> rover_x s + rover_width / 2) \<and>
   sensor (on_canvas_drag (centre front_zone + rover_width / 2) s) ''PRESENCE_FRONT'' = Some True \<and>
   sensor (on_canvas_drag (centre front_zone - rover_width / 2) s) ''PRESENCE_FRONT'' = Some True \<and>
   sensor (on_canvas_drag (centre middle_zone + rover_width / 2) s) ''PRESENCE_MIDDLE'' = Some True \<and>
   sensor (on_canvas_drag (centre middle_zone - rover_width / 2) s) ''PRESENCE_MIDDLE'' = Some True \<and>
   sensor (on_canvas_drag (centre back_zone + rover_width / 2) s) ''PRESENCE_BACK'' = Some True \<and>
   sensor (on_canvas_drag (centre back_zone - rover_width / 2) s) ''PRESENCE_BACK'' = Some True"
  by (simp add: sensor_update_sensors on_canvas_drag_def rover_left_def rover_right_def
      sensor_lines_are_centres rover_width_def scale_def)

text \<open>
  Claim C4. After \<^verbatim>\<open>update_sensors\<close>, for every rover position, the safety sensor of
  a gate is true exactly when the right edge of the rover is strictly beyond the left end
  of the gate's safety interval and its left edge strictly before the right end; a rover
  that only touches an end of the interval does not trip the sensor.
\<close>

theorem safety_strict_overlap:
  "sensor (update_sensors s) ''GATE_SAFETY_A'' =
     Some (rover_x s + rover_width / 2 > gate_a_pos - safety_zone_width / 2 \<and>
           rover_x s - rover_width / 2 < gate_a_pos + safety_zone_width / 2) \<and>
   sensor (update_sensors s) ''GATE_SAFETY_B'' =
     Some (rover_x s + rover_width / 2 > gate_b_pos - safety_zone_width / 2 \<and>
           rover_x s - rover_width / 2 < gate_b_pos + safety_zone_width / 2) \<and>
   sensor (on_canvas_drag (gate_a_pos - safety_zone_width / 2 - rover_width / 2) s)
     ''GATE_SAFETY_A'' = Some False \<and>
   sensor (on_canvas_drag (gate_a_pos + safety_zone_width / 2 + rover_width / 2) s)
     ''GATE_SAFETY_A'' = Some False \<and>
   sensor (on_canvas_drag (gate_b_pos - safety_zone_width / 2 - rover_width / 2) s)
     ''GATE_SAFETY_B'' = Some False \<and>
   sensor (on_canvas_drag (gate_b_pos + safety_zone_width / 2 + rover_width / 2) s)
     ''GATE_SAFETY_B'' = Some False"
  by (simp add: sensor_update_sensors on_canvas_drag_def rover_left_def rover_right_def)

section \<open>The invariant of the simulator\<close>

lemmas inv_defs = sim_inv_def keys_inv_def mirror_inv_def gate_a_inv_def gate_b_inv_def
  sensor_keys_def request_keys_def

lemma set_sensor_fields:
  "connected (set_sensor k v s) = connected s"
  "rover_x (set_sensor k v s) = rover_x s"
  "gate_a_open (set_sensor k v s) = gate_a_open s"
  "gate_b_open (set_sensor k v s) = gate_b_open s"
  "gate_a_moving (set_sensor k v s) = gate_a_moving s"
  "gate_b_moving (set_sensor k v s) = gate_b_moving s"
  "gate_animation_progress_a (set_sensor k v s) = gate_animation_progress_a s"
  "gate_animation_progress_b (set_sensor k v s) = gate_animation_progress_b s"
  "gate_a_animation_time (set_sensor k v s) = gate_a_animation_time s"
  "gate_b_animation_time (set_sensor k v s) = gate_b_animation_time s"
  "gate_a_target_state (set_sensor k v s) = gate_a_target_state s"
  "gate_b_target_state (set_sensor k v s) = gate_b_target_state s"
  "gate_requests (set_sensor k v s) = gate_requests s"
  "request_names (set_sensor k v s) = request_names s"
  by (simp_all add: set_sensor_def request_names_def)

lemma sensor_fields:
  "sensor (s\<lparr>connected := c\<rparr>) = sensor s"
  "sensor (s\<lparr>rover_x := x\<rparr>) = sensor s"
  "sensor (s\<lparr>gate_a_open := b\<rparr>) = sensor s"
  "sensor (s\<lparr>gate_b_open := b\<rparr>) = sensor s"
  "sensor (s\<lparr>gate_a_moving := b\<rparr>) = sensor s"
  "sensor (s\<lparr>gate_b_moving := b\<rparr>) = sensor s"
  "sensor (s\<lparr>gate_animation_progress_a := p\<rparr>) = sensor s"
  "sensor (s\<lparr>gate_animation_progress_b := p\<rparr>) = sensor s"
  "sensor (s\<lparr>gate_a_animation_time := p\<rparr>) = sensor s"
  "sensor (s\<lparr>gate_b_animation_time := p\<rparr>) = sensor s"
  "sensor (s\<lparr>gate_a_target_state := b\<rparr>) = sensor s"
  "sensor (s\<lparr>gate_b_target_state := b\<rparr>) = sensor s"
  "sensor (s\<lparr>gate_requests := gr\<rparr>) = sensor s"
  by (simp_all add: sensor_def fun_eq_iff)

lemma sensor_names_fields:
  "sensor_names (s\<lparr>connected := c\<rparr>) = sensor_names s"
  "sensor_names (s\<lparr>rover_x := x\<rparr>) = sensor_names s"
  "sensor_names (s\<lparr>gate_a_open := b\<rparr>) = sensor_names s"
  "sensor_names (s\<lparr>gate_b_open := b\<rparr>) = sensor_names s"
  "sensor_names (s\<lparr>gate_a_moving := b\<rparr>) = sensor_names s"
  "sensor_names (s\<lparr>gate_b_moving := b\<rparr>) = sensor_names s"
  "sensor_names (s\<lparr>gate_animation_progress_a := p\<rparr>) = sensor_names s"
  "sensor_names (s\<lparr>gate_animation_progress_b := p\<rparr>) = sensor_names s"
  "sensor_names (s\<lparr>gate_a_animation_time := p\<rparr>) = sensor_names s"
  "sensor_names (s\<lparr>gate_b_animation_time := p\<rparr>) = sensor_names s"
  "sensor_names (s\<lparr>gate_a_target_state := b\<rparr>) = sensor_names s"
  "sensor_names (s\<lparr>gate_b_target_state := b\<rparr>) = sensor_names s"
  "sensor_names (s\<lparr>gate_requests := gr\<rparr>) = sensor_names s"
  by (simp_all add: sensor_names_def)

lemma request_names_fields:
  "request_names (s\<lparr>connected := c\<rparr>) = request_names s"
  "request_names (s\<lparr>rover_x := x\<rparr>) = request_names s"
  "request_names (s\<lparr>gate_a_open := b\<rparr>) = request_names s"
  "request_names (s\<lparr>gate_b_open := b\<rparr>) = request_names s"
  "request_names (s\<lparr>gate_a_moving := b\<rparr>) = request_names s"
  "request_names (s\<lparr>gate_b_moving := b\<rparr>) = request_names s"
  "request_names (s\<lparr>gate_animation_progress_a := p\<rparr>) = request_names s"
  "request_names (s\<lparr>gate_animation_progress_b := p\<rparr>) = request_names s"
  "request_names (s\<lparr>gate_a_animation_time := p\<rparr>) = request_names s"
  "request_names (s\<lparr>gate_b_animation_time := p\<rparr>) = request_names s"
  "request_names (s\<lparr>gate_a_target_state := b\<rparr>) = request_names s"
  "request_names (s\<lparr>gate_b_target_state := b\<rparr>) = request_names s"
  "request_names (s\<lparr>gate_requests := gr\<rparr>) = map fst gr"
  by (simp_all add: request_names_def)

lemma sensor_names_set_sensor:
  "sensor_names (set_sensor k v s) =
     (if k \<in> set (sensor_names s) then sensor_names s else sensor_names s @ [k])"
  by (simp add: sensor_names_def set_sensor_def update_keys)

lemmas state_simps = set_sensor_fields sensor_fields sensor_names_fields request_names_fields
  sensor_names_set_sensor sensor_set_sensor

lemma inv_init: "sim_inv init_state"
  by (simp add: inv_defs init_state_def sensor_def sensor_names_def request_names_def)

lemma inv_process_gate_a: "sim_inv s \<Longrightarrow> sim_inv (process_gate_a r s)"
  by (auto simp: inv_defs process_gate_a_def state_simps gate_animation_duration_def)

lemma inv_process_gate_b: "sim_inv s \<Longrightarrow> sim_inv (process_gate_b r s)"
  by (auto simp: inv_defs process_gate_b_def state_simps gate_animation_duration_def)

lemma inv_animate_gate_a: "sim_inv s \<Longrightarrow> sim_inv (animate_gate_a s)"
  by (auto simp: inv_defs animate_gate_a_def state_simps
      gate_animation_duration_def dt_def Let_def min_def)

lemma inv_animate_gate_b: "sim_inv s \<Longrightarrow> sim_inv (animate_gate_b s)"
  by (auto simp: inv_defs animate_gate_b_def state_simps
      gate_animation_duration_def dt_def Let_def min_def)

lemma inv_update_sensors: "sim_inv s \<Longrightarrow> sim_inv (update_sensors s)"
  by (simp add: inv_defs update_sensors_def state_simps Let_def)

lemma inv_rover_x: "sim_inv s \<Longrightarrow> sim_inv (s\<lparr>rover_x := x\<rparr>)"
  by (simp add: inv_defs state_simps)

lemma inv_connected: "sim_inv s \<Longrightarrow> sim_inv (s\<lparr>connected := c\<rparr>)"
  by (simp add: inv_defs state_simps)

lemma inv_gate_requests:
  "sim_inv s \<Longrightarrow> map fst gr = request_keys \<Longrightarrow> sim_inv (s\<lparr>gate_requests := gr\<rparr>)"
  by (simp add: inv_defs state_simps)

lemma read_pairs_keys:
  "map fst (case read_pairs ps gr of Inl (e, gr') \<Rightarrow> gr' | Inr gr' \<Rightarrow> gr') = map fst gr"
  by (induction ps gr rule: read_pairs.induct)
     (auto simp: update_keys split: list.splits sum.splits prod.splits)

lemma process_gate_requests_ok:
  "request_names s = request_keys \<Longrightarrow>
   \<exists>ra rb. map_of (gate_requests s) ''GATE_REQUEST_A'' = Some ra \<and>
           map_of (gate_requests s) ''GATE_REQUEST_B'' = Some rb \<and>
           process_gate_requests s = Inr (process_gate_b rb (process_gate_a ra s))"
  by (cases "gate_requests s" rule: list.exhaust; simp add: request_names_def request_keys_def process_gate_requests_def; (cases "tl (gate_requests s)"; auto))

lemma inv_process_gate_requests: "sim_inv s \<Longrightarrow> sim_inv (state_of (process_gate_requests s))"
proof -
  assume i: "sim_inv s"
  then have "request_names s = request_keys" by (simp add: sim_inv_def keys_inv_def)
  from process_gate_requests_ok [OF this] obtain ra rb where
    "process_gate_requests s = Inr (process_gate_b rb (process_gate_a ra s))" by blast
  with i show ?thesis by (simp add: state_of_def inv_process_gate_a inv_process_gate_b)
qed

lemma inv_read_arduino_data: "sim_inv s \<Longrightarrow> sim_inv (state_of (read_arduino_data line s))"
proof -
  assume i: "sim_inv s"
  let ?r = "read_pairs (str_split CHR '','' (butlast (tl line))) (gate_requests s)"
  let ?gr = "case ?r of Inl (e, gr') \<Rightarrow> gr' | Inr gr' \<Rightarrow> gr'"
  from i have "map fst ?gr = request_keys"
    by (simp add: read_pairs_keys sim_inv_def keys_inv_def request_names_def)
  with i have j: "sim_inv (s\<lparr>gate_requests := ?gr\<rparr>)" by (rule inv_gate_requests)
  show ?thesis
  proof (cases ?r)
    case (Inl a)
    with i j show ?thesis
      by (cases a) (simp add: read_arduino_data_def state_of_def Let_def)
  next
    case (Inr gr)
    with i j inv_process_gate_requests [of "s\<lparr>gate_requests := gr\<rparr>"] show ?thesis
      by (simp add: read_arduino_data_def Let_def) (simp add: state_of_def)
  qed
qed

lemma inv_step: "sim_inv s \<Longrightarrow> sim_inv (step e s)"
  by (cases e)
     (simp_all add: inv_connected on_canvas_drag_def on_key_press_def inv_update_sensors
       inv_rover_x animate_gates_def inv_animate_gate_a inv_animate_gate_b
       inv_read_arduino_data split: keysym.splits)

lemma inv_run: "sim_inv s \<Longrightarrow> sim_inv (run es s)"
  unfolding run_def by (induction es arbitrary: s) (simp_all add: inv_step)

section \<open>The telegram codec\<close>

text \<open>
  Claim C8. For every sensor dictionary with the seven keys and every pair of moving
  flags, \<^verbatim>\<open>send_data\<close> writes \<open><\<close>, the seven pairs \<open>KEY:0\<close> or \<open>KEY:1\<close> joined by
  commas in the order PRESENCE_FRONT, PRESENCE_MIDDLE, PRESENCE_BACK, GATE_SAFETY_A,
  GATE_SAFETY_B, GATE_MOVING_A, GATE_MOVING_B, and \<open>>\<close>; the two GATE_MOVING values are
  the moving flags of the gates (\<open>ga\<close>, \<open>gb\<close>), not the dictionary entries
  (\<open>ma\<close>, \<open>mb\<close>).
\<close>

theorem encode_format:
  "send_data (s\<lparr>connected := True,
                sensor_states := snapshot pf pm pb sa sb ma mb,
                gate_a_moving := ga, gate_b_moving := gb\<rparr>) =
     Some (''<'' @ ''PRESENCE_FRONT:'' @ flag pf @ '','' @
           ''PRESENCE_MIDDLE:'' @ flag pm @ '','' @
           ''PRESENCE_BACK:'' @ flag pb @ '','' @
           ''GATE_SAFETY_A:'' @ flag sa @ '','' @
           ''GATE_SAFETY_B:'' @ flag sb @ '','' @
           ''GATE_MOVING_A:'' @ flag ga @ '','' @
           ''GATE_MOVING_B:'' @ flag gb @ ''>'')"
  by (simp add: send_data_def message_def data_parts_def snapshot_def flag_def)

text \<open>Every dictionary with the seven keys is such a snapshot, and every run has one.\<close>

lemma snapshot_of_keys:
  "map fst xs = sensor_keys \<Longrightarrow>
   \<exists>pf pm pb sa sb ma mb. xs = snapshot pf pm pb sa sb ma mb"
  by (auto simp: sensor_keys_def snapshot_def map_eq_Cons_conv)

lemma telegram_of_run:
  "\<exists>pf pm pb sa sb.
     sensor_states (run es init_state) =
       snapshot pf pm pb sa sb (gate_a_moving (run es init_state)) (gate_b_moving (run es init_state))"
proof -
  have i: "sim_inv (run es init_state)" by (rule inv_run [OF inv_init])
  then have "map fst (sensor_states (run es init_state)) = sensor_keys"
    by (simp add: sim_inv_def keys_inv_def sensor_names_def)
  from snapshot_of_keys [OF this] obtain pf pm pb sa sb ma mb where
    e: "sensor_states (run es init_state) = snapshot pf pm pb sa sb ma mb" by blast
  from i have "sensor (run es init_state) ''GATE_MOVING_A'' = Some (gate_a_moving (run es init_state))"
    "sensor (run es init_state) ''GATE_MOVING_B'' = Some (gate_b_moving (run es init_state))"
    by (simp_all add: sim_inv_def mirror_inv_def)
  with e have "ma = gate_a_moving (run es init_state)" "mb = gate_b_moving (run es init_state)"
    by (simp_all add: sensor_def snapshot_def)
  with e show ?thesis by blast
qed







text \<open>
  Claim C2. Decoding is not total. On the empty line the statement
  \<^verbatim>\<open>print(line[-1])\<close> raises \<^verbatim>\<open>IndexError\<close>, and on a segment with two colons the
  unpacking of \<^verbatim>\<open>pair.split(':')\<close> raises \<^verbatim>\<open>ValueError\<close>; neither is caught.
\<close>

theorem decode_raises:
  "read_arduino_data '''' (s\<lparr>connected := True\<rparr>) = Inl (IndexError, s\<lparr>connected := True\<rparr>) \<and>
   read_arduino_data ''<A:1:2>'' (s\<lparr>connected := True\<rparr>) =
     Inl (ValueError, s\<lparr>connected := True\<rparr>)"
  by (simp add: read_arduino_data_def startswith_def endswith_def)

text \<open>The other malformed lines are tolerated: no request is changed.\<close>

lemma malformed_examples:
  "read_arduino_data ''garbage'' (s\<lparr>connected := True\<rparr>) = Inr (s\<lparr>connected := True\<rparr>)"
  "read_arduino_data ''<no_colon_here>'' (s\<lparr>connected := True\<rparr>) =
     process_gate_requests (s\<lparr>connected := True\<rparr>)"
  "read_arduino_data ''<A:1,B>'' (with_requests ra rb (s\<lparr>connected := True\<rparr>)) =
     process_gate_requests (with_requests ra rb (s\<lparr>connected := True\<rparr>))"
  by (simp_all add: read_arduino_data_def with_requests_def startswith_def endswith_def)

text \<open>
  Apart from the two cases above decoding does return: a line that is not empty and has
  no segment with more than one colon yields a state, whatever else it contains.
\<close>

lemma str_split_not_Nil: "str_split sep xs \<noteq> []"
  by (induction xs) (auto split: list.splits)

lemma str_split_length: "length (str_split sep xs) = Suc (length (filter (\<lambda>c. c = sep) xs))"
  by (induction xs) (auto simp: str_split_not_Nil split: list.splits)

lemma str_split_two:
  assumes "sep \<in> set xs" "length (str_split sep xs) \<le> 2"
  shows "\<exists>name value. str_split sep xs = [name, value]"
proof -
  from assms(1) have "filter (\<lambda>c. c = sep) xs \<noteq> []"
    by (simp add: filter_empty_conv)
  then have "length (filter (\<lambda>c. c = sep) xs) \<ge> 1"
    by (cases "filter (\<lambda>c. c = sep) xs") simp_all
  with assms(2) have "length (str_split sep xs) = 2"
    by (simp add: str_split_length)
  then show ?thesis
    by (auto simp: length_Suc_conv numeral_2_eq_2)
qed

lemma read_pairs_total:
  "\<forall>pair \<in> set pairs. length (str_split CHR '':'' pair) \<le> 2 \<Longrightarrow>
   \<exists>gr'. read_pairs pairs gr = Inr gr'"
proof (induction pairs arbitrary: gr)
  case Nil
  then show ?case by simp
next
  case (Cons pair pairs)
  then have ih: "\<And>gr. \<exists>gr'. read_pairs pairs gr = Inr gr'" by simp
  show ?case
  proof (cases "CHR '':'' \<in> set pair")
    case True
    with Cons.prems obtain name v where "str_split CHR '':'' pair = [name, v]"
      using str_split_two [of "CHR '':''" pair] by auto
    with True ih show ?thesis by simp
  next
    case False
    with ih show ?thesis by simp
  qed
qed

lemma read_arduino_data_total:
  assumes "line \<noteq> []"
    and "\<forall>pair \<in> set (str_split CHR '','' (butlast (tl line))).
           length (str_split CHR '':'' pair) \<le> 2"
    and "request_names s = request_keys"
  shows "\<exists>s'. read_arduino_data line s = Inr s'"
proof -
  from read_pairs_total [OF assms(2)] obtain gr where
    r: "read_pairs (str_split CHR '','' (butlast (tl line))) (gate_requests s) = Inr gr"
    by blast
  from read_pairs_keys [of "str_split CHR '','' (butlast (tl line))" "gate_requests s"] r assms(3)
  have "request_names (s\<lparr>gate_requests := gr\<rparr>) = request_keys"
    by (simp add: request_names_def)
  from process_gate_requests_ok [OF this] obtain s' where
    "process_gate_requests (s\<lparr>gate_requests := gr\<rparr>) = Inr s'" by blast
  with r assms(1) show ?thesis
    by (simp add: read_arduino_data_def Let_def)
qed

text \<open>A line with one request key sets that request and leaves the other.\<close>

lemma read_request_line:
  "read_arduino_data ''<GATE_REQUEST_A:0>'' (with_requests ra rb (s\<lparr>connected := True\<rparr>)) =
     process_gate_requests (with_requests False rb (s\<lparr>connected := True\<rparr>))"
  "read_arduino_data ''<GATE_REQUEST_A:1>'' (with_requests ra rb (s\<lparr>connected := True\<rparr>)) =
     process_gate_requests (with_requests True rb (s\<lparr>connected := True\<rparr>))"
  "read_arduino_data ''<GATE_REQUEST_B:0>'' (with_requests ra rb (s\<lparr>connected := True\<rparr>)) =
     process_gate_requests (with_requests ra False (s\<lparr>connected := True\<rparr>))"
  "read_arduino_data ''<GATE_REQUEST_B:1>'' (with_requests ra rb (s\<lparr>connected := True\<rparr>)) =
     process_gate_requests (with_requests ra True (s\<lparr>connected := True\<rparr>))"
  by (simp_all add: read_arduino_data_def with_requests_def startswith_def endswith_def)

section \<open>The gates\<close>

















subsection \<open>The open cycle\<close>

lemma open_cycle_30:
  "run (open_cycle 30) init_state =
     init_state\<lparr>connected := True, gate_a_open := True, gate_animation_progress_a := 1,
       gate_a_target_state := True,
       gate_requests := [(''GATE_REQUEST_A'', True), (''GATE_REQUEST_B'', False)]\<rparr>"
  by code_simp

lemma open_cycle_29:
  "run (open_cycle 29) init_state =
     init_state\<lparr>connected := True, gate_a_moving := True, gate_animation_progress_a := 29 / 30,
       gate_a_animation_time := 29 / 10,
       gate_a_target_state := True,
       sensor_states := snapshot False False False False False True False,
       gate_requests := [(''GATE_REQUEST_A'', True), (''GATE_REQUEST_B'', False)]\<rparr>"
  by code_simp

lemma open_cycle_0:
  "run (open_cycle 0) init_state =
     init_state\<lparr>connected := True, gate_a_moving := True,
       gate_a_target_state := True,
       sensor_states := snapshot False False False False False True False,
       gate_requests := [(''GATE_REQUEST_A'', True), (''GATE_REQUEST_B'', False)]\<rparr>"
  by code_simp

text \<open>
  Claim C6. With a duration of 3 and ticks of one tenth, from the initial state (gate A
  closed, at rest, progress and animation time 0) a request to open gate A and 29 ticks
  leave the gate moving at progress 29/30; the 30th tick makes it open, at rest, at
  progress 1, with GATE_MOVING_A cleared; a 31st tick changes nothing in the state.
\<close>

theorem gate_open_cycle:
  "gate_animation_duration = 3 \<and> dt = 1 / 10 \<and>
   \<not> gate_a_open init_state \<and> \<not> gate_a_moving init_state \<and>
   gate_animation_progress_a init_state = 0 \<and> gate_a_animation_time init_state = 0 \<and>
   gate_a_moving (run (open_cycle 29) init_state) \<and>
   gate_animation_progress_a (run (open_cycle 29) init_state) = 29 / 30 \<and>
   gate_a_open (run (open_cycle 30) init_state) \<and>
   \<not> gate_a_moving (run (open_cycle 30) init_state) \<and>
   gate_animation_progress_a (run (open_cycle 30) init_state) = 1 \<and>
   sensor (run (open_cycle 30) init_state) ''GATE_MOVING_A'' = Some False \<and>
   animate_gates (run (open_cycle 30) init_state) = run (open_cycle 30) init_state \<and>
   run (open_cycle 31) init_state = run (open_cycle 30) init_state"
  by (simp add: open_cycle_30 open_cycle_29 gate_animation_duration_def dt_def)
     code_simp

subsection \<open>Invariants of every run\<close>

text \<open>
  Claim C7. In every state reached from the initial state by any sequence of events, the
  progress of each gate is between 0 and 1; a gate at rest and closed has progress 0 and
  a gate at rest and open has progress 1.
\<close>

theorem progress_bounds:
  "0 \<le> gate_animation_progress_a (run es init_state) \<and>
   gate_animation_progress_a (run es init_state) \<le> 1 \<and>
   0 \<le> gate_animation_progress_b (run es init_state) \<and>
   gate_animation_progress_b (run es init_state) \<le> 1 \<and>
   (\<not> gate_a_open (run es init_state) \<and> \<not> gate_a_moving (run es init_state) \<longrightarrow>
      gate_animation_progress_a (run es init_state) = 0) \<and>
   (gate_a_open (run es init_state) \<and> \<not> gate_a_moving (run es init_state) \<longrightarrow>
      gate_animation_progress_a (run es init_state) = 1) \<and>
   (\<not> gate_b_open (run es init_state) \<and> \<not> gate_b_moving (run es init_state) \<longrightarrow>
      gate_animation_progress_b (run es init_state) = 0) \<and>
   (gate_b_open (run es init_state) \<and> \<not> gate_b_moving (run es init_state) \<longrightarrow>
      gate_animation_progress_b (run es init_state) = 1)"
  using inv_run [OF inv_init, of es]
  by (auto simp: sim_inv_def gate_a_inv_def gate_b_inv_def)

text \<open>After the open cycle gate A rests open and gate B rests closed.\<close>

theorem progress_bounds_witness:
  "gate_a_open (run (open_cycle 30) init_state) \<and>
   \<not> gate_a_moving (run (open_cycle 30) init_state) \<and>
   gate_animation_progress_a (run (open_cycle 30) init_state) = 1 \<and>
   \<not> gate_b_open (run (open_cycle 30) init_state) \<and>
   \<not> gate_b_moving (run (open_cycle 30) init_state) \<and>
   gate_animation_progress_b (run (open_cycle 30) init_state) = 0"
proof -
  have h: "gate_a_open (run (open_cycle 30) init_state)"
    "\<not> gate_a_moving (run (open_cycle 30) init_state)"
    "\<not> gate_b_open (run (open_cycle 30) init_state)"
    "\<not> gate_b_moving (run (open_cycle 30) init_state)"
    by (simp_all only: open_cycle_30) (simp_all add: init_state_def)
  with progress_bounds [of "open_cycle 30"] show ?thesis by blast
qed

text \<open>
  Claim C10. In every state reached from the initial state by any sequence of events,
  the entries GATE_MOVING_A and GATE_MOVING_B of \<^verbatim>\<open>sensor_states\<close> equal the moving
  flags of the gates.
\<close>

theorem moving_flag_mirror:
  "sensor (run es init_state) ''GATE_MOVING_A'' = Some (gate_a_moving (run es init_state)) \<and>
   sensor (run es init_state) ''GATE_MOVING_B'' = Some (gate_b_moving (run es init_state))"
  using inv_run [OF inv_init, of es] by (simp add: sim_inv_def mirror_inv_def)

subsection \<open>Closing across the safety sensor\<close>

lemma interlock_state:
  "run interlock_scenario init_state =
     init_state\<lparr>connected := True, rover_x := 304,
       gate_a_open := True, gate_a_moving := True, gate_animation_progress_a := 1,
       sensor_states := snapshot False False False True False True False\<rparr>"
  by code_simp

text \<open>
  Claim C1. The interlock is not in force. With the rover across gate A, the gate open
  and a request to close, the state has gate A moving towards closed with GATE_SAFETY_A
  true, progress 1 and animation time 0; the next tick advances the time to one tenth and
  lowers the progress to 29/30.
\<close>

theorem closing_ignores_safety:
  "gate_a_moving (run interlock_scenario init_state) \<and>
   \<not> gate_a_target_state (run interlock_scenario init_state) \<and>
   sensor (run interlock_scenario init_state) ''GATE_SAFETY_A'' = Some True \<and>
   gate_animation_progress_a (run interlock_scenario init_state) = 1 \<and>
   gate_a_animation_time (run interlock_scenario init_state) = 0 \<and>
   gate_animation_progress_a (animate_gates (run interlock_scenario init_state)) = 29 / 30 \<and>
   gate_a_animation_time (animate_gates (run interlock_scenario init_state)) = 1 / 10"
  by (simp add: interlock_state) code_simp

end
